theory Spec2Isabelle
  imports Main
begin

section \<open>JavaScript values and strings\<close>

text \<open>
  The portal's request layer (\<^verbatim>\<open>lib/api.js\<close>), its session store
  (\<^verbatim>\<open>context/AuthContext.js\<close>) and its chat turn (\<^verbatim>\<open>pages/agent.js\<close>) are
  embedded as functions over an explicit browser state. Strings are \<open>string\<close>: a
  character is a code point below 256, which covers every literal of the source.

  A JSON value as \<^verbatim>\<open>res.json()\<close> delivers it. A Number is kept as the text
  \<^verbatim>\<open>Number.prototype.toString\<close> prints for it (\<open>''0''\<close> for both zeros), which is all
  the code ever asks of a number: whether it is falsy and how it prints.
  \<open>JUndefined\<close> is the value of an absent property; the keys of a parsed object are
  distinct.
\<close>

datatype jsval =
    JUndefined
  | JNull
  | JBool bool
  | JNum string
  | JStr string
  | JArr "jsval list"
  | JObj "(string \<times> jsval) list"

text \<open>ToBoolean, as the operator \<^verbatim>\<open>||\<close> applies it.\<close>

fun truthy :: "jsval \<Rightarrow> bool" where
  "truthy JUndefined = False"
| "truthy JNull = False"
| "truthy (JBool b) = b"
| "truthy (JNum n) = (n \<noteq> ''0'' \<and> n \<noteq> ''NaN'')"
| "truthy (JStr s) = (s \<noteq> [])"
| "truthy (JArr xs) = True"
| "truthy (JObj fs) = True"

definition js_or :: "jsval \<Rightarrow> jsval \<Rightarrow> jsval" where
  "js_or a b = (if truthy a then a else b)"

text \<open>
  What the code throws and catches: an \<^verbatim>\<open>Error\<close> object with the fields the code sets
  on it (an absent field is \<open>None\<close>), or a TypeError of the engine's, which has neither
  \<^verbatim>\<open>status\<close> nor \<^verbatim>\<open>details\<close>.
\<close>

record error_obj =
  message :: string
  status :: "nat option"
  details :: "jsval option"

datatype thrown = Error error_obj | TypeError

fun join_comma :: "string list \<Rightarrow> string" where
  "join_comma [] = []"
| "join_comma [s] = s"
| "join_comma (s # t # ts) = s @ '','' @ join_comma (t # ts)"

text \<open>The strings of the elements of an array, or what the first failing conversion throws.\<close>

fun first_thrown :: "(thrown + string) list \<Rightarrow> thrown + string list" where
  "first_thrown [] = Inr []"
| "first_thrown (Inl exn # rs) = Inl exn"
| "first_thrown (Inr s # rs) =
     (case first_thrown rs of Inl exn \<Rightarrow> Inl exn | Inr ss \<Rightarrow> Inr (s # ss))"

text \<open>
  ToString, as \<^verbatim>\<open>new Error(v)\<close> applies it to its argument. An array is joined with
  commas, \<^verbatim>\<open>null\<close> elements giving the empty string. A parsed object is converted by
  its \<^verbatim>\<open>toString\<close> and \<^verbatim>\<open>valueOf\<close> methods: it inherits \<^verbatim>\<open>Object.prototype.toString\<close>,
  which gives \<^verbatim>\<open>[object Object]\<close>, unless it has a key \<^verbatim>\<open>toString\<close> of its own, whose
  value is no function; then no method yields a primitive value and the engine throws
  a TypeError.
\<close>

fun ToString :: "jsval \<Rightarrow> thrown + string" where
  "ToString JUndefined = Inr ''undefined''"
| "ToString JNull = Inr ''null''"
| "ToString (JBool b) = Inr (if b then ''true'' else ''false'')"
| "ToString (JNum n) = Inr n"
| "ToString (JStr s) = Inr s"
| "ToString (JArr xs) =
     (case first_thrown (map (\<lambda>x. if x = JUndefined \<or> x = JNull then Inr [] else ToString x) xs) of
        Inl exn \<Rightarrow> Inl exn
      | Inr ss \<Rightarrow> Inr (join_comma ss))"
| "ToString (JObj fs) =
     (if map_of fs ''toString'' \<noteq> None then Inl TypeError else Inr ''[object Object]'')"

text \<open>
  Reading one of the properties the code reads (\<^verbatim>\<open>detail\<close>, \<^verbatim>\<open>message\<close>, \<^verbatim>\<open>error\<close>,
  \<^verbatim>\<open>reply\<close>, \<^verbatim>\<open>order_summary\<close>, \<^verbatim>\<open>customer_id\<close>; none of them is a built-in property
  of a string, number, boolean or array).
\<close>

fun get_prop :: "jsval \<Rightarrow> string \<Rightarrow> thrown + jsval" where
  "get_prop JUndefined k = Inl TypeError"
| "get_prop JNull k = Inl TypeError"
| "get_prop (JObj fs) k = Inr (case map_of fs k of None \<Rightarrow> JUndefined | Some v \<Rightarrow> v)"
| "get_prop v k = Inr JUndefined"

subsection \<open>String built-ins\<close>

text \<open>\<^verbatim>\<open>String.prototype.trim\<close>: white space and line terminators below code point 256.\<close>

definition isWhiteSpace :: "char \<Rightarrow> bool" where
  "isWhiteSpace c = ((of_char c :: nat) \<in> {9, 10, 11, 12, 13, 32, 160})"

definition trim :: "string \<Rightarrow> string" where
  "trim s = rev (dropWhile isWhiteSpace (rev (dropWhile isWhiteSpace s)))"

text \<open>
  \<^verbatim>\<open>toUpperCase\<close> on the letters a to z. The code only compares the result with
  \<^verbatim>\<open>'GET'\<close>, and no other character has G, E or T as its upper case.
\<close>

definition upper_char :: "char \<Rightarrow> char" where
  "upper_char c = (let n = (of_char c :: nat) in if 97 \<le> n \<and> n \<le> 122 then char_of (n - 32) else c)"

definition toUpperCase :: "string \<Rightarrow> string" where
  "toUpperCase s = map upper_char s"

text \<open>
  \<^verbatim>\<open>encodeURIComponent\<close>: every character except letters, digits and
  \<^verbatim>\<open>- _ . ! ~ * ' ( )\<close> becomes the percent-escapes of its UTF-8 bytes.
\<close>

definition hex_digit :: "nat \<Rightarrow> char" where
  "hex_digit n = ''0123456789ABCDEF'' ! n"

definition percent :: "nat \<Rightarrow> string" where
  "percent b = [CHR ''%'', hex_digit (b div 16), hex_digit (b mod 16)]"

definition uri_unreserved :: "char \<Rightarrow> bool" where
  "uri_unreserved c =
     (let n = (of_char c :: nat)
      in (65 \<le> n \<and> n \<le> 90) \<or> (97 \<le> n \<and> n \<le> 122) \<or> (48 \<le> n \<and> n \<le> 57)
         \<or> c \<in> set ''-_.!~*()'' \<or> n = 39)"

definition encode_char :: "char \<Rightarrow> string" where
  "encode_char c =
     (let n = (of_char c :: nat)
      in if uri_unreserved c then [c]
         else if n < 128 then percent n
         else percent (192 + n div 64) @ percent (128 + n mod 64))"

definition encodeURIComponent :: "string \<Rightarrow> string" where
  "encodeURIComponent s = concat (map encode_char s)"

text \<open>A status code inside a template literal: its decimal digits.\<close>

definition digit :: "nat \<Rightarrow> char" where
  "digit n = ''0123456789'' ! n"

fun show_nat :: "nat \<Rightarrow> string" where
  "show_nat n = (if n < 10 then [digit n] else show_nat (n div 10) @ [digit (n mod 10)])"

declare show_nat.simps [simp del]

section \<open>The request layer: \<^verbatim>\<open>apiRequest\<close>\<close>

text \<open>
  The caller's \<^verbatim>\<open>options\<close> (an absent field is \<open>None\<close>) and the configuration
  handed to \<^verbatim>\<open>fetch\<close>. A body is the JSON text of a value; the text itself is not
  spelled out, \<open>JSON_stringify v\<close> stands for it.
\<close>

datatype json_text = JSON_stringify jsval

record options =
  http_method :: "string option"
  headers :: "(string \<times> string) list option"
  body :: "json_text option"

record fetch_options =
  fetch_method :: "string option"
  fetch_headers :: "(string \<times> string) list"
  fetch_body :: "json_text option"
  credentials :: string

text \<open>
  A response as the code reads it: \<^verbatim>\<open>res.status\<close>, \<^verbatim>\<open>res.statusText\<close> and the outcome
  of \<^verbatim>\<open>res.json()\<close> (\<open>None\<close> when the body is absent or is not JSON, so that the
  promise rejects). \<^verbatim>\<open>res.ok\<close> is the Fetch standard's: a status from 200 to 299.
\<close>

record response =
  res_status :: nat
  statusText :: string
  json :: "jsval option"

definition ok :: "response \<Rightarrow> bool" where
  "ok res = (200 \<le> res_status res \<and> res_status res \<le> 299)"

text \<open>
  What the network does with one call of \<^verbatim>\<open>fetch\<close>: the promise settles after some
  milliseconds, fulfilled with a response or rejected with an error of some message, or
  it never settles.
\<close>

datatype settlement = Fulfilled response | Rejected string

datatype fetch_behaviour = Settles nat settlement | Never

record env =
  NEXT_PUBLIC_API_URL :: string
  fetch :: "string \<Rightarrow> fetch_options \<Rightarrow> fetch_behaviour"

text \<open>What \<^verbatim>\<open>console.log\<close> and \<^verbatim>\<open>console.error\<close> are given.\<close>

datatype console_arg = Text string | Thrown thrown | MessageOf thrown

datatype console_entry = ConsoleLog "console_arg list" | ConsoleError "console_arg list"

record user_obj =
  customer_id :: jsval

text \<open>
  A chat message. The field \<^verbatim>\<open>text\<close> is \<open>msg_text\<close> here; a message built without
  \<^verbatim>\<open>orderSummary\<close> has \<open>JUndefined\<close> there.
\<close>

record chat_message =
  sender :: string
  msg_text :: jsval
  orderSummary :: jsval

text \<open>
  The state of the page: \<^verbatim>\<open>window.location.pathname\<close> (\<open>None\<close> where \<^verbatim>\<open>window\<close> is
  undefined, as on the server), the values assigned to \<^verbatim>\<open>window.location.href\<close>, the
  calls of \<^verbatim>\<open>fetch\<close>, the console, and the React state of \<^verbatim>\<open>AuthProvider\<close>
  (\<open>user\<close>, \<open>auth_loading\<close>) and of the chat (\<open>messages\<close>, \<open>input\<close>,
  \<open>chat_loading\<close>).
\<close>

record page =
  pathname :: "string option"
  hrefs :: "string list"
  fetched :: "(string \<times> fetch_options) list"
  console :: "console_entry list"
  user :: "user_obj option"
  auth_loading :: bool
  messages :: "chat_message list"
  input :: string
  chat_loading :: bool

text \<open>Object spread \<^verbatim>\<open>{...a, ...b}\<close> on string-valued properties.\<close>

fun set_prop :: "string \<Rightarrow> string \<Rightarrow> (string \<times> string) list \<Rightarrow> (string \<times> string) list" where
  "set_prop k v [] = [(k, v)]"
| "set_prop k v ((k', v') # kvs) = (if k = k' then (k, v) # kvs else (k', v') # set_prop k v kvs)"

definition spread :: "(string \<times> string) list \<Rightarrow> (string \<times> string) list \<Rightarrow> (string \<times> string) list" where
  "spread a b = fold (\<lambda>(k, v). set_prop k v) b a"

text \<open>
  \<^verbatim>\<open>Promise.race([fetch(url, options), <timer rejecting with 'Request timeout'>])\<close>:
  the response, or the message of the rejection that won. A fetch that settles no later
  than the timer fires wins the race; the statement on timeouts speaks of a fetch that
  settles later than that, or never.
\<close>

definition fetchWithTimeout :: "env \<Rightarrow> string \<Rightarrow> fetch_options \<Rightarrow> nat \<Rightarrow> string + response" where
  "fetchWithTimeout e url opts timeout =
     (case fetch e url opts of
        Never \<Rightarrow> Inl ''Request timeout''
      | Settles t s \<Rightarrow>
          if t \<le> timeout
          then (case s of Fulfilled res \<Rightarrow> Inr res | Rejected msg \<Rightarrow> Inl msg)
          else Inl ''Request timeout'')"

definition defaultHeaders :: "options \<Rightarrow> (string \<times> string) list" where
  "defaultHeaders opts =
     (case http_method opts of
        None \<Rightarrow> []
      | Some m \<Rightarrow>
          if m \<noteq> [] \<and> toUpperCase m \<noteq> ''GET''
          then [(''Content-Type'', ''application/json'')] else [])"

definition fetchOptions :: "options \<Rightarrow> fetch_options" where
  "fetchOptions opts =
     \<lparr> fetch_method = http_method opts,
       fetch_headers = spread (defaultHeaders opts) (case headers opts of None \<Rightarrow> [] | Some h \<Rightarrow> h),
       fetch_body = body opts,
       credentials = ''include'' \<rparr>"

text \<open>The branch for status 401 (lines 50 to 69 of the source).\<close>

definition on_401 :: "string \<Rightarrow> page \<Rightarrow> (thrown + jsval) \<times> page" where
  "on_401 endpoint p =
     (let currentPath = (case pathname p of Some path \<Rightarrow> path | None \<Rightarrow> []);
          isOnLoginPage = (currentPath = ''/login'');
          isAuthCheck = (endpoint = ''/me'' \<or> endpoint = ''/validate'');
          p' = (if \<not> isOnLoginPage \<and> \<not> isAuthCheck
                then (let redirectUrl = ''/login'' @
                            (if currentPath \<noteq> ''/''
                             then ''?redirect='' @ encodeURIComponent currentPath else [])
                      in if pathname p \<noteq> None then p\<lparr>hrefs := hrefs p @ [redirectUrl]\<rparr> else p)
                else p)
      in (Inl (Error \<lparr>message = ''Session expired. Please login again.'',
                      status = Some 401, details = None\<rparr>), p'))"

text \<open>
  The branch for the other statuses that are not ok (lines 71 to 89). The read of
  \<^verbatim>\<open>errorData.detail\<close> throws on \<^verbatim>\<open>null\<close>, inside the \<^verbatim>\<open>try\<close>, before
  \<^verbatim>\<open>errorDetails\<close> is assigned. \<^verbatim>\<open>new Error(errorMessage)\<close> stands after the
  \<^verbatim>\<open>try\<close>: when the conversion of \<^verbatim>\<open>errorMessage\<close> to a string throws, that is what
  the call throws.
\<close>

definition http_error :: "response \<Rightarrow> thrown" where
  "http_error res =
     (let fallback = ''HTTP '' @ show_nat (res_status res) @ '': '' @ statusText res;
          (errorMessage, errorDetails) =
            (case json res of
               None \<Rightarrow> (JStr fallback, JNull)
             | Some errorData \<Rightarrow>
                 (case get_prop errorData ''detail'' of
                    Inl exn \<Rightarrow> (JStr fallback, JNull)
                  | Inr detail \<Rightarrow>
                      (case get_prop errorData ''message'' of
                         Inl exn \<Rightarrow> (JStr fallback, JNull)
                       | Inr msg \<Rightarrow>
                           (case get_prop errorData ''error'' of
                              Inl exn \<Rightarrow> (JStr fallback, JNull)
                            | Inr err \<Rightarrow>
                                (js_or detail (js_or msg (js_or err (JStr fallback))), errorData)))))
      in case ToString errorMessage of
           Inl exn \<Rightarrow> exn
         | Inr text \<Rightarrow>
             Error \<lparr>message = text, status = Some (res_status res),
                    details = Some errorDetails\<rparr>)"

definition apiRequest :: "env \<Rightarrow> string \<Rightarrow> options \<Rightarrow> page \<Rightarrow> (thrown + jsval) \<times> page" where
  "apiRequest e endpoint opts p =
     (let url = NEXT_PUBLIC_API_URL e @ endpoint;
          p1 = p\<lparr>fetched := fetched p @ [(url, fetchOptions opts)]\<rparr>
      in case fetchWithTimeout e url (fetchOptions opts) 10000 of
           Inl networkError \<Rightarrow>
             (Inl (Error \<lparr>message = ''Network error: '' @ networkError,
                           status = None, details = None\<rparr>), p1)
         | Inr res \<Rightarrow>
             if res_status res = 401 then on_401 endpoint p1
             else if \<not> ok res then (Inl (http_error res), p1)
             else (case json res of
                     Some v \<Rightarrow> (Inr v, p1)
                   | None \<Rightarrow>
                       (Inl (Error \<lparr>message = ''Invalid JSON response from server'',
                                     status = None, details = None\<rparr>), p1)))"

section \<open>Completions: \<^verbatim>\<open>try\<close>, \<^verbatim>\<open>catch\<close>, \<^verbatim>\<open>finally\<close>\<close>

text \<open>
  An asynchronous function runs on the page and ends normally with a value (\<open>Inr\<close>) or
  by throwing (\<open>Inl\<close>); what it did to the page before throwing stays done.
\<close>

type_synonym 'a js = "page \<Rightarrow> (thrown + 'a) \<times> page"

definition and_then :: "'a js \<Rightarrow> ('a \<Rightarrow> 'b js) \<Rightarrow> 'b js" where
  "and_then m f p = (case m p of (Inl exn, p1) \<Rightarrow> (Inl exn, p1) | (Inr v, p1) \<Rightarrow> f v p1)"

definition try_catch :: "'a js \<Rightarrow> (thrown \<Rightarrow> 'a js) \<Rightarrow> 'a js" where
  "try_catch blk handler p =
     (case blk p of (Inl exn, p1) \<Rightarrow> handler exn p1 | (Inr v, p1) \<Rightarrow> (Inr v, p1))"

text \<open>The \<^verbatim>\<open>finally\<close> blocks of the source are single state updates, which cannot throw.\<close>

definition try_finally :: "'a js \<Rightarrow> (page \<Rightarrow> page) \<Rightarrow> 'a js" where
  "try_finally blk fin p = (case blk p of (r, p1) \<Rightarrow> (r, fin p1))"

definition effect :: "(page \<Rightarrow> page) \<Rightarrow> unit js" where
  "effect f p = (Inr (), f p)"

definition evaluate :: "thrown + 'a \<Rightarrow> 'a js" where
  "evaluate r p = (r, p)"

definition console_log :: "console_arg list \<Rightarrow> page \<Rightarrow> page" where
  "console_log args p = p\<lparr>console := console p @ [ConsoleLog args]\<rparr>"

definition console_error :: "console_arg list \<Rightarrow> page \<Rightarrow> page" where
  "console_error args p = p\<lparr>console := console p @ [ConsoleError args]\<rparr>"

section \<open>The session store: \<^verbatim>\<open>AuthProvider\<close>\<close>

definition no_options :: options where
  "no_options = \<lparr>http_method = None, headers = None, body = None\<rparr>"

definition setUser :: "user_obj option \<Rightarrow> page \<Rightarrow> page" where
  "setUser u p = p\<lparr>user := u\<rparr>"

definition setLoading :: "bool \<Rightarrow> page \<Rightarrow> page" where
  "setLoading b p = p\<lparr>auth_loading := b\<rparr>"

definition checkAuthStatus :: "env \<Rightarrow> unit js" where
  "checkAuthStatus e =
     try_finally
       (try_catch
          (and_then (apiRequest e ''/me'' no_options)
             (\<lambda>response. and_then (evaluate (get_prop response ''customer_id''))
                (\<lambda>cid. effect (setUser (Some \<lparr>customer_id = cid\<rparr>)))))
          (\<lambda>error. and_then (effect (console_log [Text ''No valid session:'', MessageOf error]))
             (\<lambda>_. effect (setUser None))))
       (setLoading False)"

definition login :: "jsval \<Rightarrow> unit js" where
  "login cid = effect (setUser (Some \<lparr>customer_id = cid\<rparr>))"

text \<open>The options \<^verbatim>\<open>{ method: 'POST' }\<close>.\<close>

definition post_options :: options where
  "post_options = \<lparr>http_method = Some ''POST'', headers = None, body = None\<rparr>"

definition logout :: "env \<Rightarrow> unit js" where
  "logout e =
     try_finally
       (try_catch
          (and_then (apiRequest e ''/logout'' post_options)
             (\<lambda>_. evaluate (Inr ())))
          (\<lambda>error. effect (console_error [Text ''Logout error:'', Thrown error])))
       (setUser None)"

section \<open>The chat turn: \<^verbatim>\<open>sendMessage\<close>\<close>

text \<open>
  \<^verbatim>\<open>formatMessagesForBackend\<close> reads the \<^verbatim>\<open>messages\<close> of the render that created
  the handler: the history as it is when \<^verbatim>\<open>sendMessage\<close> is called, without the
  message the call itself appends.
\<close>

definition formatMessagesForBackend :: "chat_message list \<Rightarrow> jsval list" where
  "formatMessagesForBackend msgs =
     map (\<lambda>msg. JObj [(''role'', JStr (if sender msg = ''agent'' then ''assistant'' else ''user'')),
                       (''content'', msg_text msg)]) msgs"

definition setMessages :: "(chat_message list \<Rightarrow> chat_message list) \<Rightarrow> page \<Rightarrow> page" where
  "setMessages f p = p\<lparr>messages := f (messages p)\<rparr>"

definition apology :: string where
  "apology = ''Sorry, something went wrong. Please try again later.''"

definition agent_options :: "string \<Rightarrow> chat_message list \<Rightarrow> options" where
  "agent_options trimmedInput msgs =
     \<lparr>http_method = Some ''POST'', headers = None,
      body = Some (JSON_stringify (JObj
        [(''message'', JStr trimmedInput),
         (''previous_messages'', JArr (formatMessagesForBackend msgs))]))\<rparr>"

definition sendMessage :: "env \<Rightarrow> unit js" where
  "sendMessage e p =
     (let trimmedInput = trim (input p)
      in if trimmedInput = [] then (Inr (), p)
         else
           try_finally
             (try_catch
                (and_then (apiRequest e ''/agent/'' (agent_options trimmedInput (messages p)))
                   (\<lambda>response. and_then (evaluate (get_prop response ''reply''))
                      (\<lambda>reply. and_then (evaluate (get_prop response ''order_summary''))
                         (\<lambda>order_summary. effect (setMessages (\<lambda>prev. prev @
                            [\<lparr>sender = ''agent'', msg_text = reply,
                              orderSummary = js_or order_summary JNull\<rparr>]))))))
                (\<lambda>error. and_then (effect (console_error [Text ''API Error:'', Thrown error]))
                   (\<lambda>_. effect (setMessages (\<lambda>prev. prev @
                      [\<lparr>sender = ''agent'', msg_text = JStr apology, orderSummary = JUndefined\<rparr>])))))
             (\<lambda>q. q\<lparr>chat_loading := False\<rparr>)
             ((setMessages (\<lambda>prev. prev @
                  [\<lparr>sender = ''user'', msg_text = JStr trimmedInput, orderSummary = JUndefined\<rparr>])
                (p\<lparr>input := []\<rparr>))\<lparr>chat_loading := True\<rparr>))"

section \<open>Notions the statements use\<close>

text \<open>
  The call receives the response \<open>res\<close>: the fetch is fulfilled with it within the
  10000 milliseconds of the timer.
\<close>

definition receives :: "env \<Rightarrow> string \<Rightarrow> options \<Rightarrow> response \<Rightarrow> bool" where
  "receives e endpoint opts res =
     (fetchWithTimeout e (NEXT_PUBLIC_API_URL e @ endpoint) (fetchOptions opts) 10000 = Inr res)"

text \<open>The network call does not settle within the 10000 milliseconds.\<close>

definition timed_out :: "env \<Rightarrow> string \<Rightarrow> options \<Rightarrow> bool" where
  "timed_out e endpoint opts =
     (case fetch e (NEXT_PUBLIC_API_URL e @ endpoint) (fetchOptions opts) of
        Never \<Rightarrow> True
      | Settles t s \<Rightarrow> 10000 < t)"

text \<open>
  The field \<open>k\<close> of a parsed body, in the specification's sense: the value stored
  under \<open>k\<close> when the body is an object that has it, and \<open>JUndefined\<close> otherwise.
\<close>

definition body_field :: "jsval \<Rightarrow> string \<Rightarrow> jsval" where
  "body_field d k =
     (case d of
        JObj fs \<Rightarrow> (case map_of fs k of Some v \<Rightarrow> v | None \<Rightarrow> JUndefined)
      | _ \<Rightarrow> JUndefined)"

text \<open>
  The value the message of an HTTP error is made from, in the specification's words:
  the first truthy one of the fields \<^verbatim>\<open>detail\<close>, \<^verbatim>\<open>message\<close>, \<^verbatim>\<open>error\<close> of the parsed
  body, and the text \<^verbatim>\<open>HTTP <status>: <statusText>\<close> when there is no body or no such
  field.
\<close>

definition error_message_value :: "response \<Rightarrow> jsval" where
  "error_message_value res =
     (let fallback = JStr (''HTTP '' @ show_nat (res_status res) @ '': '' @ statusText res)
      in case json res of
           None \<Rightarrow> fallback
         | Some d \<Rightarrow>
             if truthy (body_field d ''detail'') then body_field d ''detail''
             else if truthy (body_field d ''message'') then body_field d ''message''
             else if truthy (body_field d ''error'') then body_field d ''error''
             else fallback)"

text \<open>The input is empty or consists of white space only.\<close>

definition blank :: "string \<Rightarrow> bool" where
  "blank s = list_all isWhiteSpace s"

text \<open>The message \<^verbatim>\<open>sendMessage\<close> appends for the user.\<close>

definition user_message :: "page \<Rightarrow> chat_message" where
  "user_message p = \<lparr>sender = ''user'', msg_text = JStr (trim (input p)), orderSummary = JUndefined\<rparr>"

text \<open>
  How the agent call of \<^verbatim>\<open>sendMessage\<close> on the page \<open>p\<close> ends: with the parsed response,
  or with what \<^verbatim>\<open>apiRequest\<close> throws.
\<close>

definition agent_outcome :: "env \<Rightarrow> page \<Rightarrow> thrown + jsval" where
  "agent_outcome e p = fst (apiRequest e ''/agent/'' (agent_options (trim (input p)) (messages p)) p)"

text \<open>The page on which \<^verbatim>\<open>sendMessage\<close> calls the agent.\<close>

definition sending :: "page \<Rightarrow> page" where
  "sending p = (setMessages (\<lambda>prev. prev @ [user_message p]) (p\<lparr>input := []\<rparr>))\<lparr>chat_loading := True\<rparr>"

section \<open>Concrete pages and networks\<close>

text \<open>A network that treats every call alike: it settles after \<open>t\<close> milliseconds.\<close>

definition replying :: "nat \<Rightarrow> settlement \<Rightarrow> env" where
  "replying t s = \<lparr>NEXT_PUBLIC_API_URL = ''https://api.example.com'', fetch = (\<lambda>url opts. Settles t s)\<rparr>"

definition silent :: env where
  "silent = \<lparr>NEXT_PUBLIC_API_URL = ''https://api.example.com'', fetch = (\<lambda>url opts. Never)\<rparr>"

definition page_at :: "string option \<Rightarrow> page" where
  "page_at path =
     \<lparr>pathname = path, hrefs = [], fetched = [], console = [],
      user = Some \<lparr>customer_id = JStr ''C-1001''\<rparr>, auth_loading = True,
      messages = [\<lparr>sender = ''user'', msg_text = JStr ''hi'', orderSummary = JUndefined\<rparr>,
                  \<lparr>sender = ''agent'', msg_text = JStr ''Hello!'', orderSummary = JNull\<rparr>],
      input = ''  where is order 42? '', chat_loading = False\<rparr>"

definition unauthorized :: response where
  "unauthorized = \<lparr>res_status = 401, statusText = ''Unauthorized'',
                    json = Some (JObj [(''detail'', JStr ''Not authenticated'')])\<rparr>"

definition not_found :: response where
  "not_found = \<lparr>res_status = 404, statusText = ''Not Found'',
                 json = Some (JObj [(''detail'', JStr []), (''message'', JStr ''no such order''),
                                    (''error'', JStr ''E404'')])\<rparr>"

definition bad_gateway :: response where
  "bad_gateway = \<lparr>res_status = 502, statusText = ''Bad Gateway'', json = None\<rparr>"

definition bad_request :: response where
  "bad_request = \<lparr>res_status = 400, statusText = ''Bad Request'',
                   json = Some (JObj [(''detail'', JObj [(''toString'', JNum ''0'')])])\<rparr>"

definition unauthorized_html :: response where
  "unauthorized_html = \<lparr>res_status = 401, statusText = ''Nope'', json = None\<rparr>"

definition shipped :: response where
  "shipped = \<lparr>res_status = 200, statusText = ''OK'',
               json = Some (JObj [(''reply'', JStr ''It shipped.''),
                                  (''order_summary'', JObj [(''sales_order_number'', JStr ''SO-42''),
                                                            (''display_status'', JStr ''Shipped'')])])\<rparr>"

section \<open>Properties of \<^verbatim>\<open>apiRequest\<close>\<close>

lemma on_401_fst:
  "fst (on_401 endpoint p) =
     Inl (Error \<lparr>message = ''Session expired. Please login again.'',
                  status = Some 401, details = None\<rparr>)"
  by (simp add: on_401_def Let_def)

lemma on_401_frame:
  "snd (on_401 endpoint p) = p\<lparr>hrefs := hrefs (snd (on_401 endpoint p))\<rparr>"
  by (simp add: on_401_def Let_def)

lemma on_401_hrefs:
  "hrefs (snd (on_401 endpoint p)) = hrefs p @
     (case pathname p of
        None \<Rightarrow> []
      | Some path \<Rightarrow>
          if path = ''/login'' \<or> endpoint = ''/me'' \<or> endpoint = ''/validate'' then []
          else if path = ''/'' then [''/login'']
          else [''/login?redirect='' @ encodeURIComponent path])"
  by (simp add: on_401_def Let_def split: option.splits)

text \<open>The outcome of a call does not depend on the page it is made from.\<close>

lemma apiRequest_fst_page:
  "fst (apiRequest e endpoint opts p) = fst (apiRequest e endpoint opts q)"
  by (simp add: apiRequest_def Let_def on_401_fst split: sum.splits option.splits)

text \<open>A call changes nothing on the page but the log of fetches and the navigations.\<close>

lemma apiRequest_frame:
  "snd (apiRequest e endpoint opts p) =
     p\<lparr>hrefs := hrefs (snd (apiRequest e endpoint opts p)),
       fetched := fetched p @ [(NEXT_PUBLIC_API_URL e @ endpoint, fetchOptions opts)]\<rparr>"
  apply (simp add: apiRequest_def Let_def split: sum.splits option.splits)
  apply (intro allI impI conjI)
  apply (subst on_401_frame)
  apply simp
  done

lemma apiRequest_probe_hrefs:
  "endpoint = ''/me'' \<or> endpoint = ''/validate'' \<Longrightarrow>
     hrefs (snd (apiRequest e endpoint opts p)) = hrefs p"
  by (auto simp add: apiRequest_def Let_def on_401_hrefs split: sum.splits option.splits)

lemma receives_replying:
  "t \<le> 10000 \<Longrightarrow> receives (replying t (Fulfilled res)) endpoint opts res"
  by (simp add: receives_def replying_def fetchWithTimeout_def)

lemma encode_orders_7: "encodeURIComponent ''/orders/7'' = ''%2Forders%2F7''"
  by (simp add: encodeURIComponent_def encode_char_def uri_unreserved_def percent_def hex_digit_def)

lemma encode_root: "encodeURIComponent ''/'' = ''%2F''"
  by (simp add: encodeURIComponent_def encode_char_def uri_unreserved_def percent_def hex_digit_def)

text \<open>
  C1, as amended. A call that receives a 401 assigns \<^verbatim>\<open>window.location.href\<close> at most
  once. It assigns nothing when \<^verbatim>\<open>window\<close> is undefined, when the current path is
  \<^verbatim>\<open>/login\<close>, or when the endpoint is \<^verbatim>\<open>/me\<close> or \<^verbatim>\<open>/validate\<close>. Otherwise it
  assigns exactly once: the bare \<^verbatim>\<open>/login\<close> when the current path is \<^verbatim>\<open>/\<close>, and
  \<^verbatim>\<open>/login?redirect=\<close> followed by the URI-encoded current path for every other path.
\<close>

theorem apiRequest_401_navigation:
  assumes "receives e endpoint opts res" and "res_status res = 401"
  shows "hrefs (snd (apiRequest e endpoint opts p)) = hrefs p @
     (case pathname p of
        None \<Rightarrow> []
      | Some path \<Rightarrow>
          if path = ''/login'' \<or> endpoint = ''/me'' \<or> endpoint = ''/validate'' then []
          else if path = ''/'' then [''/login'']
          else [''/login?redirect='' @ encodeURIComponent path])"
  using assms by (simp add: receives_def apiRequest_def Let_def on_401_hrefs)

theorem apiRequest_401_navigation_witness:
  "receives (replying 30 (Fulfilled unauthorized)) ''/orders/'' no_options unauthorized
   \<and> res_status unauthorized = 401
   \<and> hrefs (snd (apiRequest (replying 30 (Fulfilled unauthorized)) ''/orders/'' no_options
        (page_at (Some ''/orders/7'')))) = [''/login?redirect=%2Forders%2F7'']"
proof -
  have r: "receives (replying 30 (Fulfilled unauthorized)) ''/orders/'' no_options unauthorized"
    by (simp add: receives_replying)
  have s: "res_status unauthorized = 401"
    by (simp add: unauthorized_def)
  show ?thesis
    using r s apiRequest_401_navigation [OF r s, of "page_at (Some ''/orders/7'')"]
    by (simp add: page_at_def encode_orders_7)
qed

text \<open>
  C1 as the specification states it fails on the landing page: the endpoint is no
  probe and the current path \<^verbatim>\<open>/\<close> is not \<^verbatim>\<open>/login\<close>, yet the one navigation goes to
  the bare \<^verbatim>\<open>/login\<close> and not to \<^verbatim>\<open>/login?redirect=%2F\<close>.
\<close>

theorem apiRequest_401_navigation_counterexample:
  "receives (replying 30 (Fulfilled unauthorized)) ''/orders/'' no_options unauthorized
   \<and> res_status unauthorized = 401
   \<and> ''/orders/'' \<noteq> ''/me'' \<and> ''/orders/'' \<noteq> ''/validate''
   \<and> pathname (page_at (Some ''/'')) = Some ''/'' \<and> ''/'' \<noteq> ''/login''
   \<and> hrefs (snd (apiRequest (replying 30 (Fulfilled unauthorized)) ''/orders/'' no_options
        (page_at (Some ''/'')))) = [''/login'']
   \<and> [''/login''] \<noteq> [''/login?redirect='' @ encodeURIComponent ''/'']"
proof -
  have r: "receives (replying 30 (Fulfilled unauthorized)) ''/orders/'' no_options unauthorized"
    by (simp add: receives_replying)
  have s: "res_status unauthorized = 401"
    by (simp add: unauthorized_def)
  have "hrefs (snd (apiRequest (replying 30 (Fulfilled unauthorized)) ''/orders/'' no_options
          (page_at (Some ''/'')))) = [''/login'']"
    using r s by (simp add: receives_def apiRequest_def Let_def on_401_hrefs page_at_def)
  then show ?thesis
    using r s by (simp add: page_at_def encode_root)
qed

text \<open>
  C2, as amended. A call whose network call does not settle within the 10000
  milliseconds does settle itself: it throws an \<^verbatim>\<open>Error\<close> whose message is
  \<^verbatim>\<open>Network error: Request timeout\<close>, with no status and no details, the same
  wrapper every network failure gets, and it navigates nowhere.
\<close>

theorem apiRequest_timeout:
  assumes "timed_out e endpoint opts"
  shows "apiRequest e endpoint opts p =
     (Inl (Error \<lparr>message = ''Network error: Request timeout'', status = None, details = None\<rparr>),
      p\<lparr>fetched := fetched p @ [(NEXT_PUBLIC_API_URL e @ endpoint, fetchOptions opts)]\<rparr>)"
  using assms
  by (simp add: timed_out_def apiRequest_def fetchWithTimeout_def Let_def
      split: fetch_behaviour.splits)

theorem apiRequest_timeout_witness:
  "timed_out silent ''/orders/'' no_options
   \<and> fst (apiRequest silent ''/orders/'' no_options (page_at (Some ''/orders'')))
       = Inl (Error \<lparr>message = ''Network error: Request timeout'', status = None, details = None\<rparr>)"
proof -
  have t: "timed_out silent ''/orders/'' no_options"
    by (simp add: timed_out_def silent_def)
  show ?thesis
    using t apiRequest_timeout [OF t, of "page_at (Some ''/orders'')"] by simp
qed

text \<open>
  C2 as the specification states it fails: the outcome of a call that timed out is no
  variant of its own. It is the very outcome of a call whose fetch was rejected, within
  the time limit, by a network failure of message \<^verbatim>\<open>Request timeout\<close>, and it carries
  the prefix of a network error.
\<close>

theorem apiRequest_timeout_counterexample:
  "timed_out silent ''/orders/'' no_options
   \<and> \<not> timed_out (replying 5 (Rejected ''Request timeout'')) ''/orders/'' no_options
   \<and> apiRequest silent ''/orders/'' no_options (page_at (Some ''/orders''))
       = apiRequest (replying 5 (Rejected ''Request timeout'')) ''/orders/'' no_options
           (page_at (Some ''/orders''))
   \<and> fst (apiRequest silent ''/orders/'' no_options (page_at (Some ''/orders'')))
       = Inl (Error \<lparr>message = ''Network error: '' @ ''Request timeout'',
                      status = None, details = None\<rparr>)"
  by (simp add: timed_out_def silent_def replying_def apiRequest_def fetchWithTimeout_def Let_def)


lemma get_prop_body_field:
  "d \<noteq> JUndefined \<Longrightarrow> d \<noteq> JNull \<Longrightarrow> get_prop d k = Inr (body_field d k)"
  by (cases d) (simp_all add: body_field_def)

lemma body_field_JNull: "body_field JNull k = JUndefined"
  by (simp add: body_field_def)

lemma http_error_unparseable:
  "json res = None \<Longrightarrow>
     http_error res = Error \<lparr>message = ''HTTP '' @ show_nat (res_status res) @ '': '' @ statusText res,
                             status = Some (res_status res), details = Some JNull\<rparr>"
  by (simp add: http_error_def Let_def)

lemma http_error_null:
  "json res = Some JNull \<Longrightarrow>
     http_error res = Error \<lparr>message = ''HTTP '' @ show_nat (res_status res) @ '': '' @ statusText res,
                             status = Some (res_status res), details = Some JNull\<rparr>"
  by (simp add: http_error_def Let_def)

lemma http_error_parsed:
  assumes "json res = Some d" and "d \<noteq> JUndefined" and "d \<noteq> JNull"
  shows "http_error res =
     (case ToString (error_message_value res) of
        Inl exn \<Rightarrow> exn
      | Inr text \<Rightarrow> Error \<lparr>message = text, status = Some (res_status res), details = Some d\<rparr>)"
  using assms
  by (simp add: http_error_def error_message_value_def Let_def get_prop_body_field js_or_def)

text \<open>
  What a call throws on a status that is neither ok nor 401, for every body: the
  \<^verbatim>\<open>Error\<close> with that status, the string of the chosen value as message and the parsed
  body (or \<^verbatim>\<open>null\<close>) as details, provided the chosen value converts to a string; and
  what the conversion throws otherwise.
\<close>

lemma apiRequest_http_error:
  assumes "receives e endpoint opts res" and "res_status res \<noteq> 401" and "\<not> ok res"
    and "json res \<noteq> Some JUndefined"
  shows "fst (apiRequest e endpoint opts p) =
     (case ToString (error_message_value res) of
        Inl exn \<Rightarrow> Inl exn
      | Inr text \<Rightarrow>
          Inl (Error \<lparr>message = text, status = Some (res_status res),
                       details = Some (case json res of None \<Rightarrow> JNull | Some d \<Rightarrow> d)\<rparr>))"
proof -
  have out: "fst (apiRequest e endpoint opts p) = Inl (http_error res)"
    using assms(1-3) by (simp add: receives_def apiRequest_def Let_def)
  show ?thesis
  proof (cases "json res")
    case None
    then show ?thesis
      by (simp add: out http_error_unparseable error_message_value_def)
  next
    case (Some d)
    show ?thesis
    proof (cases "d = JNull")
      case True
      with Some show ?thesis
        by (simp add: out http_error_null error_message_value_def body_field_JNull)
    next
      case False
      with Some assms(4) show ?thesis
        by (simp add: out http_error_parsed split: sum.splits)
    qed
  qed
qed

text \<open>
  On bodies whose chosen field is a string, and on a body that is not JSON, the call
  throws the \<^verbatim>\<open>Error\<close> with the status, the message and the details.
\<close>

lemma apiRequest_http_error_examples:
  "fst (apiRequest (replying 30 (Fulfilled not_found)) ''/orders/9'' no_options (page_at (Some ''/orders'')))
       = Inl (Error \<lparr>message = ''no such order'', status = Some 404, details = json not_found\<rparr>)
   \<and> fst (apiRequest (replying 30 (Fulfilled bad_gateway)) ''/orders/9'' no_options (page_at (Some ''/orders'')))
       = Inl (Error \<lparr>message = ''HTTP 502: Bad Gateway'', status = Some 502, details = Some JNull\<rparr>)"
proof -
  have r1: "receives (replying 30 (Fulfilled not_found)) ''/orders/9'' no_options not_found"
    by (simp add: receives_replying)
  have s1: "res_status not_found \<noteq> 401" "\<not> ok not_found" "json not_found \<noteq> Some JUndefined"
    by (simp_all add: not_found_def ok_def)
  have r2: "receives (replying 30 (Fulfilled bad_gateway)) ''/orders/9'' no_options bad_gateway"
    by (simp add: receives_replying)
  have s2: "res_status bad_gateway \<noteq> 401" "\<not> ok bad_gateway" "json bad_gateway \<noteq> Some JUndefined"
    by (simp_all add: bad_gateway_def ok_def)
  have d: "show_nat 502 = ''502''"
    by (simp add: show_nat.simps digit_def)
  have a: "fst (apiRequest (replying 30 (Fulfilled not_found)) ''/orders/9'' no_options (page_at (Some ''/orders'')))
       = Inl (Error \<lparr>message = ''no such order'', status = Some 404, details = json not_found\<rparr>)"
    using apiRequest_http_error [OF r1 s1, of "page_at (Some ''/orders'')"]
    by (simp add: not_found_def body_field_def error_message_value_def)
  have b: "fst (apiRequest (replying 30 (Fulfilled bad_gateway)) ''/orders/9'' no_options (page_at (Some ''/orders'')))
       = Inl (Error \<lparr>message = ''HTTP 502: Bad Gateway'', status = Some 502, details = Some JNull\<rparr>)"
    using apiRequest_http_error [OF r2 s2, of "page_at (Some ''/orders'')"]
    by (simp add: bad_gateway_def d error_message_value_def)
  show ?thesis using a b by simp
qed

text \<open>
  C6. The claim asks that every call that receives a status that is neither ok nor 401
  throws an error that carries that status, a message taken from the body, and the
  parsed body as details. The code misses a case. The response of status 400 with the
  JSON body \<^verbatim>\<open>{"detail": {"toString": 0}}\<close> is parsed, its \<^verbatim>\<open>detail\<close> is truthy and
  becomes \<^verbatim>\<open>errorMessage\<close>, and \<^verbatim>\<open>new Error(errorMessage)\<close>, which stands after the
  \<^verbatim>\<open>try\<close>, throws the engine's TypeError: the call ends with an error that has no
  status and no details.
\<close>

theorem apiRequest_http_error_failing_input:
  "receives (replying 30 (Fulfilled bad_request)) ''/orders/9'' no_options bad_request
   \<and> res_status bad_request = 400
   \<and> json bad_request = Some (JObj [(''detail'', JObj [(''toString'', JNum ''0'')])])
   \<and> fst (apiRequest (replying 30 (Fulfilled bad_request)) ''/orders/9'' no_options
        (page_at (Some ''/orders''))) = Inl TypeError"
proof -
  have r: "receives (replying 30 (Fulfilled bad_request)) ''/orders/9'' no_options bad_request"
    by (simp add: receives_replying)
  have s: "res_status bad_request \<noteq> 401" "\<not> ok bad_request" "json bad_request \<noteq> Some JUndefined"
    by (simp_all add: bad_request_def ok_def)
  have "fst (apiRequest (replying 30 (Fulfilled bad_request)) ''/orders/9'' no_options
        (page_at (Some ''/orders''))) = Inl TypeError"
    using apiRequest_http_error [OF r s, of "page_at (Some ''/orders'')"]
    by (simp add: bad_request_def body_field_def error_message_value_def)
  with r show ?thesis
    by (simp add: bad_request_def)
qed

lemma apiRequest_401:
  "receives e endpoint opts res \<Longrightarrow> res_status res = 401 \<Longrightarrow>
     apiRequest e endpoint opts p =
       on_401 endpoint (p\<lparr>fetched := fetched p @ [(NEXT_PUBLIC_API_URL e @ endpoint, fetchOptions opts)]\<rparr>)"
  by (simp add: receives_def apiRequest_def Let_def)

text \<open>
  C10. A call that receives a 401 throws an \<^verbatim>\<open>Error\<close> with the fixed message
  \<^verbatim>\<open>Session expired. Please login again.\<close> and status 401, and the body of the
  response plays no part: any other 401 response to the same call leaves the same
  outcome and the same page.
\<close>

theorem apiRequest_401_error:
  assumes "receives e endpoint opts res" and "res_status res = 401"
  shows "fst (apiRequest e endpoint opts p) =
           Inl (Error \<lparr>message = ''Session expired. Please login again.'',
                        status = Some 401, details = None\<rparr>)
         \<and> (\<forall>e' res'. NEXT_PUBLIC_API_URL e' = NEXT_PUBLIC_API_URL e
               \<and> receives e' endpoint opts res' \<and> res_status res' = 401
               \<longrightarrow> apiRequest e' endpoint opts p = apiRequest e endpoint opts p)"
proof -
  have "apiRequest e' endpoint opts p = apiRequest e endpoint opts p"
    if "NEXT_PUBLIC_API_URL e' = NEXT_PUBLIC_API_URL e" and "receives e' endpoint opts res'"
      and "res_status res' = 401" for e' res'
    using that assms by (simp add: apiRequest_401)
  moreover have "fst (apiRequest e endpoint opts p) =
      Inl (Error \<lparr>message = ''Session expired. Please login again.'',
                   status = Some 401, details = None\<rparr>)"
    using assms by (simp add: apiRequest_401 on_401_fst)
  ultimately show ?thesis by blast
qed

theorem apiRequest_401_error_witness:
  "receives (replying 30 (Fulfilled unauthorized)) ''/orders/'' no_options unauthorized
   \<and> res_status unauthorized = 401
   \<and> fst (apiRequest (replying 30 (Fulfilled unauthorized)) ''/orders/'' no_options (page_at (Some ''/orders''))) =
           Inl (Error \<lparr>message = ''Session expired. Please login again.'',
                        status = Some 401, details = None\<rparr>)
   \<and> receives (replying 45 (Fulfilled unauthorized_html)) ''/orders/'' no_options unauthorized_html
   \<and> res_status unauthorized_html = 401
   \<and> json unauthorized_html \<noteq> json unauthorized
   \<and> apiRequest (replying 45 (Fulfilled unauthorized_html)) ''/orders/'' no_options (page_at (Some ''/orders''))
      = apiRequest (replying 30 (Fulfilled unauthorized)) ''/orders/'' no_options (page_at (Some ''/orders''))"
proof -
  have r: "receives (replying 30 (Fulfilled unauthorized)) ''/orders/'' no_options unauthorized"
    by (simp add: receives_replying)
  have s: "res_status unauthorized = 401"
    by (simp add: unauthorized_def)
  have r': "receives (replying 45 (Fulfilled unauthorized_html)) ''/orders/'' no_options unauthorized_html"
    by (simp add: receives_replying)
  have s': "res_status unauthorized_html = 401" "json unauthorized_html \<noteq> json unauthorized"
    by (simp_all add: unauthorized_html_def unauthorized_def)
  have u: "NEXT_PUBLIC_API_URL (replying 45 (Fulfilled unauthorized_html)) = NEXT_PUBLIC_API_URL (replying 30 (Fulfilled unauthorized))"
    by (simp add: replying_def)
  show ?thesis
    using r s r' s' u apiRequest_401_error [OF r s, of "page_at (Some ''/orders'')"]
    by blast
qed

section \<open>Properties of the chat turn and of the session store\<close>

lemma apiRequest_messages: "messages (snd (apiRequest e endpoint opts p)) = messages p"
  by (subst apiRequest_frame) simp

lemma apiRequest_console: "console (snd (apiRequest e endpoint opts p)) = console p"
  by (subst apiRequest_frame) simp

lemma apiRequest_user: "user (snd (apiRequest e endpoint opts p)) = user p"
  by (subst apiRequest_frame) simp

lemma apiRequest_auth_loading: "auth_loading (snd (apiRequest e endpoint opts p)) = auth_loading p"
  by (subst apiRequest_frame) simp

lemma apiRequest_fetched:
  "fetched (snd (apiRequest e endpoint opts p)) =
     fetched p @ [(NEXT_PUBLIC_API_URL e @ endpoint, fetchOptions opts)]"
  by (subst apiRequest_frame) simp

lemma sendMessage_thrown:
  assumes "trim (input p) \<noteq> []" and "agent_outcome e p = Inl exn"
  shows "sendMessage e p =
     (Inr (), (snd (apiRequest e ''/agent/'' (agent_options (trim (input p)) (messages p)) (sending p)))
        \<lparr>console := console p @ [ConsoleError [Text ''API Error:'', Thrown exn]],
         messages := messages p @ [user_message p,
            \<lparr>sender = ''agent'', msg_text = JStr apology, orderSummary = JUndefined\<rparr>],
         chat_loading := False\<rparr>)"
proof -
  let ?call = "apiRequest e ''/agent/'' (agent_options (trim (input p)) (messages p)) (sending p)"
  have f: "fst ?call = Inl exn"
    using assms(2) apiRequest_fst_page [of e _ _ "sending p" p] by (simp add: agent_outcome_def)
  have m: "messages (snd ?call) = messages p @ [user_message p]"
    by (simp add: apiRequest_messages sending_def setMessages_def)
  have c: "console (snd ?call) = console p"
    by (simp add: apiRequest_console sending_def setMessages_def)
  obtain r q where rq: "?call = (r, q)" by (cases ?call)
  with f m c have "r = Inl exn" "messages q = messages p @ [user_message p]" "console q = console p"
    by simp_all
  moreover from rq have "apiRequest e ''/agent/'' (agent_options (trim (input p)) (messages p))
      (p\<lparr>input := [], messages := messages p @ [user_message p], chat_loading := True\<rparr>) = (r, q)"
    by (simp add: sending_def setMessages_def)
  ultimately show ?thesis
    using assms(1) rq
    by (simp add: sendMessage_def Let_def try_finally_def try_catch_def and_then_def effect_def
        console_error_def setMessages_def user_message_def [symmetric])
qed


lemma sendMessage_null:
  assumes "trim (input p) \<noteq> []" and "agent_outcome e p = Inr v" and "v = JNull \<or> v = JUndefined"
  shows "sendMessage e p =
     (Inr (), (snd (apiRequest e ''/agent/'' (agent_options (trim (input p)) (messages p)) (sending p)))
        \<lparr>console := console p @ [ConsoleError [Text ''API Error:'', Thrown TypeError]],
         messages := messages p @ [user_message p,
            \<lparr>sender = ''agent'', msg_text = JStr apology, orderSummary = JUndefined\<rparr>],
         chat_loading := False\<rparr>)"
proof -
  let ?call = "apiRequest e ''/agent/'' (agent_options (trim (input p)) (messages p)) (sending p)"
  have f: "fst ?call = Inr v"
    using assms(2) apiRequest_fst_page [of e _ _ "sending p" p] by (simp add: agent_outcome_def)
  have m: "messages (snd ?call) = messages p @ [user_message p]"
    by (simp add: apiRequest_messages sending_def setMessages_def)
  have c: "console (snd ?call) = console p"
    by (simp add: apiRequest_console sending_def setMessages_def)
  obtain r q where rq: "?call = (r, q)" by (cases ?call)
  with f m c have "r = Inr v" "messages q = messages p @ [user_message p]" "console q = console p"
    by simp_all
  moreover from rq have "apiRequest e ''/agent/'' (agent_options (trim (input p)) (messages p))
      (p\<lparr>input := [], messages := messages p @ [user_message p], chat_loading := True\<rparr>) = (r, q)"
    by (simp add: sending_def setMessages_def)
  moreover have "get_prop v ''reply'' = Inl TypeError"
    using assms(3) by auto
  ultimately show ?thesis
    using assms(1) rq
    by (simp add: sendMessage_def Let_def try_finally_def try_catch_def and_then_def effect_def
        evaluate_def console_error_def setMessages_def user_message_def [symmetric])
qed

lemma sendMessage_returned:
  assumes "trim (input p) \<noteq> []" and "agent_outcome e p = Inr v" and "v \<noteq> JNull" and "v \<noteq> JUndefined"
  shows "sendMessage e p =
     (Inr (), (snd (apiRequest e ''/agent/'' (agent_options (trim (input p)) (messages p)) (sending p)))
        \<lparr>messages := messages p @ [user_message p,
            \<lparr>sender = ''agent'', msg_text = body_field v ''reply'',
              orderSummary = (if truthy (body_field v ''order_summary'')
                              then body_field v ''order_summary'' else JNull)\<rparr>],
         chat_loading := False\<rparr>)"
proof -
  let ?call = "apiRequest e ''/agent/'' (agent_options (trim (input p)) (messages p)) (sending p)"
  have f: "fst ?call = Inr v"
    using assms(2) apiRequest_fst_page [of e _ _ "sending p" p] by (simp add: agent_outcome_def)
  have m: "messages (snd ?call) = messages p @ [user_message p]"
    by (simp add: apiRequest_messages sending_def setMessages_def)
  obtain r q where rq: "?call = (r, q)" by (cases ?call)
  with f m have "r = Inr v" "messages q = messages p @ [user_message p]"
    by simp_all
  moreover from rq have "apiRequest e ''/agent/'' (agent_options (trim (input p)) (messages p))
      (p\<lparr>input := [], messages := messages p @ [user_message p], chat_loading := True\<rparr>) = (r, q)"
    by (simp add: sending_def setMessages_def)
  moreover have "get_prop v k = Inr (body_field v k)" for k
    using assms(3,4) by (simp add: get_prop_body_field)
  ultimately show ?thesis
    using assms(1) rq
    by (simp add: sendMessage_def Let_def try_finally_def try_catch_def and_then_def effect_def
        evaluate_def js_or_def setMessages_def user_message_def [symmetric])
qed

lemma sendMessage_shape:
  assumes "trim (input p) \<noteq> []"
  shows "\<exists>logs m. sender m = ''agent'' \<and> sendMessage e p =
     (Inr (), (snd (apiRequest e ''/agent/'' (agent_options (trim (input p)) (messages p)) (sending p)))
        \<lparr>console := console p @ logs, messages := messages p @ [user_message p, m],
         chat_loading := False\<rparr>)"
proof (cases "agent_outcome e p")
  case (Inl exn)
  show ?thesis
    by (rule exI [of _ "[ConsoleError [Text ''API Error:'', Thrown exn]]"], rule exI [of _ "\<lparr>sender = ''agent'', msg_text = JStr apology, orderSummary = JUndefined\<rparr>"])
       (simp add: sendMessage_thrown [OF assms Inl])
next
  case (Inr v)
  show ?thesis
  proof (cases "v = JNull \<or> v = JUndefined")
    case True
    show ?thesis
      by (rule exI [of _ "[ConsoleError [Text ''API Error:'', Thrown TypeError]]"], rule exI [of _ "\<lparr>sender = ''agent'', msg_text = JStr apology, orderSummary = JUndefined\<rparr>"])
         (simp add: sendMessage_null [OF assms Inr True])
  next
    case False
    then have n: "v \<noteq> JNull" "v \<noteq> JUndefined" by simp_all
    let ?call = "apiRequest e ''/agent/'' (agent_options (trim (input p)) (messages p)) (sending p)"
    have c: "console (snd ?call) = console p"
      by (simp add: apiRequest_console sending_def setMessages_def)
    have "(snd ?call)\<lparr>console := console p @ []\<rparr> = snd ?call"
      using c by simp
    then show ?thesis
      apply (intro exI [of _ "[]"] exI [of _ "\<lparr>sender = ''agent'', msg_text = body_field v ''reply'',
              orderSummary = (if truthy (body_field v ''order_summary'')
                              then body_field v ''order_summary'' else JNull)\<rparr>"])
      apply (simp add: sendMessage_returned [OF assms Inr n])
      done
  qed
qed

lemma dropWhile_all: "list_all P xs \<Longrightarrow> dropWhile P xs = []"
  by (induction xs) simp_all

lemma trim_blank: "blank s \<Longrightarrow> trim s = []"
  by (simp add: blank_def trim_def dropWhile_all)

lemma trim_not_blank: "\<not> blank s \<Longrightarrow> trim s \<noteq> []"
proof -
  assume "\<not> blank s"
  then have a: "dropWhile isWhiteSpace s \<noteq> []"
    by (simp add: blank_def list_all_iff dropWhile_eq_Nil_conv)
  then have "\<not> isWhiteSpace (hd (dropWhile isWhiteSpace s))"
    by (rule hd_dropWhile)
  moreover have "hd (dropWhile isWhiteSpace s) \<in> set (rev (dropWhile isWhiteSpace s))"
    using a by simp
  ultimately have "dropWhile isWhiteSpace (rev (dropWhile isWhiteSpace s)) \<noteq> []"
    by (auto simp: dropWhile_eq_Nil_conv)
  then show ?thesis by (simp add: trim_def)
qed

text \<open>
  C4. Called with an input that is empty or white space only, \<^verbatim>\<open>sendMessage\<close> returns
  at once and leaves the page as it was: the history keeps its length and no fetch is
  issued.
\<close>

theorem sendMessage_blank_noop:
  assumes "blank (input p)"
  shows "sendMessage e p = (Inr (), p)
         \<and> length (messages (snd (sendMessage e p))) = length (messages p)
         \<and> fetched (snd (sendMessage e p)) = fetched p"
  using trim_blank [OF assms] by (simp add: sendMessage_def)

theorem sendMessage_blank_noop_witness:
  "blank (input ((page_at (Some ''/orders''))\<lparr>input := []\<rparr>))
   \<and> sendMessage silent ((page_at (Some ''/orders''))\<lparr>input := []\<rparr>)
       = (Inr (), (page_at (Some ''/orders''))\<lparr>input := []\<rparr>)
   \<and> blank (input ((page_at (Some ''/orders''))\<lparr>input := ''   ''\<rparr>))
   \<and> sendMessage silent ((page_at (Some ''/orders''))\<lparr>input := ''   ''\<rparr>)
       = (Inr (), (page_at (Some ''/orders''))\<lparr>input := ''   ''\<rparr>)
   \<and> fetched (snd (sendMessage silent ((page_at (Some ''/orders''))\<lparr>input := ''   ''\<rparr>))) = []"
proof -
  have a: "blank (input ((page_at (Some ''/orders''))\<lparr>input := []\<rparr>))"
    by (simp add: blank_def)
  have b: "blank (input ((page_at (Some ''/orders''))\<lparr>input := ''   ''\<rparr>))"
    by (simp add: blank_def isWhiteSpace_def)
  have c: "fetched ((page_at (Some ''/orders''))\<lparr>input := ''   ''\<rparr>) = []"
    by (simp add: page_at_def)
  show ?thesis
    using a b c sendMessage_blank_noop [OF a, of silent] sendMessage_blank_noop [OF b, of silent]
    by simp
qed

text \<open>
  C3. Called with an input that is not blank, \<^verbatim>\<open>sendMessage\<close> ends normally, and the
  history has grown by exactly two messages: the user's message with the trimmed input,
  then one message of the agent, whatever the outcome of the call. When the call
  returns an object, the agent's message carries its \<^verbatim>\<open>reply\<close> and its
  \<^verbatim>\<open>order_summary\<close>, with \<^verbatim>\<open>null\<close> for a summary that is absent (or falsy).
\<close>

theorem sendMessage_appends_user_then_agent:
  assumes "\<not> blank (input p)"
  shows "fst (sendMessage e p) = Inr ()
     \<and> (\<exists>m. messages (snd (sendMessage e p)) = messages p @
              [\<lparr>sender = ''user'', msg_text = JStr (trim (input p)), orderSummary = JUndefined\<rparr>, m]
            \<and> sender m = ''agent''
            \<and> (\<forall>fs. agent_outcome e p = Inr (JObj fs) \<longrightarrow>
                  msg_text m = body_field (JObj fs) ''reply''
                  \<and> orderSummary m =
                      (if truthy (body_field (JObj fs) ''order_summary'')
                       then body_field (JObj fs) ''order_summary'' else JNull)))"
proof -
  have t: "trim (input p) \<noteq> []"
    using assms by (rule trim_not_blank)
  from sendMessage_shape [OF t, of e] obtain logs m where
    m: "sender m = ''agent''" and
    s: "sendMessage e p =
     (Inr (), (snd (apiRequest e ''/agent/'' (agent_options (trim (input p)) (messages p)) (sending p)))
        \<lparr>console := console p @ logs, messages := messages p @ [user_message p, m],
         chat_loading := False\<rparr>)"
    by blast
  have ms: "messages (snd (sendMessage e p)) = messages p @ [user_message p, m]"
    using s by simp
  have "msg_text m = body_field (JObj fs) ''reply''
        \<and> orderSummary m = (if truthy (body_field (JObj fs) ''order_summary'')
                              then body_field (JObj fs) ''order_summary'' else JNull)"
    if "agent_outcome e p = Inr (JObj fs)" for fs
  proof -
    have "messages (snd (sendMessage e p)) = messages p @ [user_message p,
            \<lparr>sender = ''agent'', msg_text = body_field (JObj fs) ''reply'',
              orderSummary = (if truthy (body_field (JObj fs) ''order_summary'')
                              then body_field (JObj fs) ''order_summary'' else JNull)\<rparr>]"
      using sendMessage_returned [OF t that] by simp
    with ms have "m = \<lparr>sender = ''agent'', msg_text = body_field (JObj fs) ''reply'',
              orderSummary = (if truthy (body_field (JObj fs) ''order_summary'')
                              then body_field (JObj fs) ''order_summary'' else JNull)\<rparr>"
      by simp
    then show ?thesis by simp
  qed
  moreover have "fst (sendMessage e p) = Inr ()"
    using s by simp
  ultimately show ?thesis
    using m ms by (auto simp add: user_message_def)
qed

lemma outcome_rejected:
  "t \<le> 10000 \<Longrightarrow> fst (apiRequest (replying t (Rejected msg)) endpoint opts p) =
     Inl (Error \<lparr>message = ''Network error: '' @ msg, status = None, details = None\<rparr>)"
  by (simp add: apiRequest_def replying_def fetchWithTimeout_def Let_def)

lemma outcome_ok:
  "t \<le> 10000 \<Longrightarrow> ok res \<Longrightarrow> json res = Some v \<Longrightarrow>
     fst (apiRequest (replying t (Fulfilled res)) endpoint opts p) = Inr v"
  by (simp add: apiRequest_def replying_def fetchWithTimeout_def Let_def ok_def)

lemma trim_example: "trim ''  where is order 42? '' = ''where is order 42?''"
  by (simp add: trim_def isWhiteSpace_def)

lemma not_blank_example: "\<not> blank (input (page_at (Some ''/orders/7'')))"
  by (simp add: page_at_def blank_def isWhiteSpace_def)

theorem sendMessage_appends_user_then_agent_witness:
  "\<not> blank (input (page_at (Some ''/orders/7'')))
   \<and> fst (sendMessage (replying 30 (Fulfilled shipped)) (page_at (Some ''/orders/7''))) = Inr ()
   \<and> messages (snd (sendMessage (replying 30 (Fulfilled shipped)) (page_at (Some ''/orders/7'')))) =
       messages (page_at (Some ''/orders/7'')) @
         [\<lparr>sender = ''user'', msg_text = JStr ''where is order 42?'', orderSummary = JUndefined\<rparr>,
          \<lparr>sender = ''agent'', msg_text = JStr ''It shipped.'',
            orderSummary = JObj [(''sales_order_number'', JStr ''SO-42''),
                                 (''display_status'', JStr ''Shipped'')]\<rparr>]"
proof -
  let ?e = "replying 30 (Fulfilled shipped)" and ?p = "page_at (Some ''/orders/7'')"
  have o: "agent_outcome ?e ?p = Inr (JObj [(''reply'', JStr ''It shipped.''),
      (''order_summary'', JObj [(''sales_order_number'', JStr ''SO-42''),
                                (''display_status'', JStr ''Shipped'')])])"
    unfolding agent_outcome_def
    by (rule outcome_ok) (simp_all add: shipped_def ok_def)
  have i: "trim (input ?p) = ''where is order 42?''"
    by (simp add: page_at_def trim_example)
  from sendMessage_appends_user_then_agent [OF not_blank_example, of ?e] o obtain m where
    "fst (sendMessage ?e ?p) = Inr ()"
    and ms: "messages (snd (sendMessage ?e ?p)) = messages ?p @
        [\<lparr>sender = ''user'', msg_text = JStr (trim (input ?p)), orderSummary = JUndefined\<rparr>, m]"
    and "sender m = ''agent''"
    and "msg_text m = JStr ''It shipped.''"
    and "orderSummary m = JObj [(''sales_order_number'', JStr ''SO-42''),
                                (''display_status'', JStr ''Shipped'')]"
    by (auto simp add: body_field_def)
  moreover from this have "m = \<lparr>sender = ''agent'', msg_text = JStr ''It shipped.'',
      orderSummary = JObj [(''sales_order_number'', JStr ''SO-42''),
                           (''display_status'', JStr ''Shipped'')]\<rparr>"
    by (cases m) simp
  ultimately show ?thesis
    using not_blank_example i by simp
qed

text \<open>
  C5. When the agent call throws, the agent's message is the fixed apology, the same
  string whatever was thrown, so that nothing of the error's message reaches the history;
  the error itself goes to \<^verbatim>\<open>console.error\<close>, and \<^verbatim>\<open>sendMessage\<close> ends normally.
\<close>

theorem sendMessage_failure_apology:
  assumes "\<not> blank (input p)" and "agent_outcome e p = Inl exn"
  shows "messages (snd (sendMessage e p)) = messages p @
           [\<lparr>sender = ''user'', msg_text = JStr (trim (input p)), orderSummary = JUndefined\<rparr>,
            \<lparr>sender = ''agent'',
              msg_text = JStr ''Sorry, something went wrong. Please try again later.'',
              orderSummary = JUndefined\<rparr>]
         \<and> console (snd (sendMessage e p)) =
             console p @ [ConsoleError [Text ''API Error:'', Thrown exn]]
         \<and> fst (sendMessage e p) = Inr ()"
  using sendMessage_thrown [OF trim_not_blank [OF assms(1)] assms(2)]
  by (simp add: user_message_def apology_def)

theorem sendMessage_failure_apology_witness:
  "\<not> blank (input (page_at (Some ''/orders/7'')))
   \<and> agent_outcome (replying 12 (Rejected ''Failed to fetch'')) (page_at (Some ''/orders/7''))
       = Inl (Error \<lparr>message = ''Network error: Failed to fetch'', status = None, details = None\<rparr>)
   \<and> messages (snd (sendMessage (replying 12 (Rejected ''Failed to fetch'')) (page_at (Some ''/orders/7'')))) =
       messages (page_at (Some ''/orders/7'')) @
         [\<lparr>sender = ''user'', msg_text = JStr ''where is order 42?'', orderSummary = JUndefined\<rparr>,
          \<lparr>sender = ''agent'',
            msg_text = JStr ''Sorry, something went wrong. Please try again later.'',
            orderSummary = JUndefined\<rparr>]
   \<and> console (snd (sendMessage (replying 12 (Rejected ''Failed to fetch'')) (page_at (Some ''/orders/7'')))) =
       [ConsoleError [Text ''API Error:'',
          Thrown (Error \<lparr>message = ''Network error: Failed to fetch'', status = None, details = None\<rparr>)]]"
proof -
  let ?e = "replying 12 (Rejected ''Failed to fetch'')" and ?p = "page_at (Some ''/orders/7'')"
  have o: "agent_outcome ?e ?p =
      Inl (Error \<lparr>message = ''Network error: Failed to fetch'', status = None, details = None\<rparr>)"
    by (simp add: agent_outcome_def outcome_rejected)
  have i: "trim (input ?p) = ''where is order 42?''" "console ?p = []"
    by (simp_all add: page_at_def trim_example)
  show ?thesis
    using not_blank_example o i sendMessage_failure_apology [OF not_blank_example o]
    by simp
qed

lemma fetchOptions_agent:
  "fetchOptions (agent_options t msgs) =
     \<lparr>fetch_method = Some ''POST'',
      fetch_headers = [(''Content-Type'', ''application/json'')],
      fetch_body = Some (JSON_stringify (JObj
        [(''message'', JStr t), (''previous_messages'', JArr (formatMessagesForBackend msgs))])),
      credentials = ''include''\<rparr>"
  by (simp add: fetchOptions_def agent_options_def defaultHeaders_def toUpperCase_def
      upper_char_def spread_def)

text \<open>
  C9. The one fetch of a turn is a POST to \<^verbatim>\<open>/agent/\<close> whose body holds the trimmed
  input as \<^verbatim>\<open>message\<close> and the formatted history as \<^verbatim>\<open>previous_messages\<close>. The
  formatted history has one entry per message, in order: role \<^verbatim>\<open>assistant\<close> for
  sender \<^verbatim>\<open>agent\<close>, role \<^verbatim>\<open>user\<close> for sender \<^verbatim>\<open>user\<close>, and the message's text
  as content.
\<close>

theorem sendMessage_payload:
  assumes "\<not> blank (input p)"
  shows "fetched (snd (sendMessage e p)) = fetched p @
           [(NEXT_PUBLIC_API_URL e @ ''/agent/'',
             \<lparr>fetch_method = Some ''POST'',
              fetch_headers = [(''Content-Type'', ''application/json'')],
              fetch_body = Some (JSON_stringify (JObj
                [(''message'', JStr (trim (input p))),
                 (''previous_messages'', JArr (formatMessagesForBackend (messages p)))])),
              credentials = ''include''\<rparr>)]
         \<and> length (formatMessagesForBackend (messages p)) = length (messages p)
         \<and> (\<forall>i < length (messages p).
               (sender (messages p ! i) = ''agent'' \<longrightarrow>
                  formatMessagesForBackend (messages p) ! i =
                    JObj [(''role'', JStr ''assistant''), (''content'', msg_text (messages p ! i))])
               \<and> (sender (messages p ! i) = ''user'' \<longrightarrow>
                  formatMessagesForBackend (messages p) ! i =
                    JObj [(''role'', JStr ''user''), (''content'', msg_text (messages p ! i))]))"
proof -
  have t: "trim (input p) \<noteq> []"
    using assms by (rule trim_not_blank)
  from sendMessage_shape [OF t, of e] obtain logs m where
    s: "sendMessage e p =
     (Inr (), (snd (apiRequest e ''/agent/'' (agent_options (trim (input p)) (messages p)) (sending p)))
        \<lparr>console := console p @ logs, messages := messages p @ [user_message p, m],
         chat_loading := False\<rparr>)"
    by blast
  have "fetched (sending p) = fetched p"
    by (simp add: sending_def setMessages_def)
  with s have "fetched (snd (sendMessage e p)) = fetched p @
      [(NEXT_PUBLIC_API_URL e @ ''/agent/'', fetchOptions (agent_options (trim (input p)) (messages p)))]"
    by (simp add: apiRequest_fetched)
  then show ?thesis
    by (simp add: fetchOptions_agent formatMessagesForBackend_def)
qed

theorem sendMessage_payload_witness:
  "\<not> blank (input (page_at (Some ''/orders/7'')))
   \<and> fetched (snd (sendMessage silent (page_at (Some ''/orders/7'')))) =
       [(''https://api.example.com/agent/'',
         \<lparr>fetch_method = Some ''POST'',
          fetch_headers = [(''Content-Type'', ''application/json'')],
          fetch_body = Some (JSON_stringify (JObj
            [(''message'', JStr ''where is order 42?''),
             (''previous_messages'', JArr
                [JObj [(''role'', JStr ''user''), (''content'', JStr ''hi'')],
                 JObj [(''role'', JStr ''assistant''), (''content'', JStr ''Hello!'')]])])),
          credentials = ''include''\<rparr>)]"
proof -
  let ?p = "page_at (Some ''/orders/7'')"
  have i: "trim (input ?p) = ''where is order 42?''" "fetched ?p = []"
    by (simp_all add: page_at_def trim_example)
  have f: "formatMessagesForBackend (messages ?p) =
      [JObj [(''role'', JStr ''user''), (''content'', JStr ''hi'')],
       JObj [(''role'', JStr ''assistant''), (''content'', JStr ''Hello!'')]]"
    by (simp add: page_at_def formatMessagesForBackend_def)
  have u: "NEXT_PUBLIC_API_URL silent @ ''/agent/'' = ''https://api.example.com/agent/''"
    by (simp add: silent_def)
  show ?thesis
    using not_blank_example sendMessage_payload [OF not_blank_example, of silent]
    by (simp add: i f u)
qed

lemma checkAuthStatus_thrown:
  assumes "fst (apiRequest e ''/me'' no_options p) = Inl exn"
  shows "checkAuthStatus e p =
     (Inr (), (snd (apiRequest e ''/me'' no_options p))
        \<lparr>console := console p @ [ConsoleLog [Text ''No valid session:'', MessageOf exn]],
         user := None, auth_loading := False\<rparr>)"
proof -
  obtain r q where rq: "apiRequest e ''/me'' no_options p = (r, q)"
    by (cases "apiRequest e ''/me'' no_options p")
  with assms have "r = Inl exn" by simp
  moreover have "console q = console p"
    using apiRequest_console [of e "''/me''" no_options p] rq by simp
  ultimately show ?thesis
    using rq
    by (simp add: checkAuthStatus_def try_finally_def try_catch_def and_then_def effect_def
        console_log_def setUser_def setLoading_def)
qed

text \<open>
  C7. When the identity check \<^verbatim>\<open>/me\<close> throws, whatever it throws,
  \<^verbatim>\<open>checkAuthStatus\<close> ends normally with \<open>user\<close> null and the loading flag false;
  the failure is logged with \<^verbatim>\<open>console.log\<close> and causes no navigation.
\<close>

theorem checkAuthStatus_failure:
  assumes "fst (apiRequest e ''/me'' no_options p) = Inl exn"
  shows "fst (checkAuthStatus e p) = Inr ()
         \<and> user (snd (checkAuthStatus e p)) = None
         \<and> auth_loading (snd (checkAuthStatus e p)) = False
         \<and> console (snd (checkAuthStatus e p)) =
             console p @ [ConsoleLog [Text ''No valid session:'', MessageOf exn]]
         \<and> hrefs (snd (checkAuthStatus e p)) = hrefs p"
  by (simp add: checkAuthStatus_thrown [OF assms] apiRequest_probe_hrefs)

theorem checkAuthStatus_failure_witness:
  "fst (apiRequest (replying 30 (Fulfilled unauthorized)) ''/me'' no_options (page_at (Some ''/orders'')))
     = Inl (Error \<lparr>message = ''Session expired. Please login again.'',
                    status = Some 401, details = None\<rparr>)
   \<and> user (page_at (Some ''/orders'')) \<noteq> None
   \<and> auth_loading (page_at (Some ''/orders''))
   \<and> fst (checkAuthStatus (replying 30 (Fulfilled unauthorized)) (page_at (Some ''/orders''))) = Inr ()
   \<and> user (snd (checkAuthStatus (replying 30 (Fulfilled unauthorized)) (page_at (Some ''/orders'')))) = None
   \<and> auth_loading (snd (checkAuthStatus (replying 30 (Fulfilled unauthorized)) (page_at (Some ''/orders'')))) = False
   \<and> console (snd (checkAuthStatus (replying 30 (Fulfilled unauthorized)) (page_at (Some ''/orders'')))) =
       [ConsoleLog [Text ''No valid session:'',
          MessageOf (Error \<lparr>message = ''Session expired. Please login again.'',
                             status = Some 401, details = None\<rparr>)]]
   \<and> hrefs (snd (checkAuthStatus (replying 30 (Fulfilled unauthorized)) (page_at (Some ''/orders'')))) = []"
proof -
  let ?e = "replying 30 (Fulfilled unauthorized)" and ?p = "page_at (Some ''/orders'')"
  have r: "receives ?e ''/me'' no_options unauthorized"
    by (simp add: receives_replying)
  have o: "fst (apiRequest ?e ''/me'' no_options ?p)
     = Inl (Error \<lparr>message = ''Session expired. Please login again.'',
                    status = Some 401, details = None\<rparr>)"
    using r by (simp add: apiRequest_401 on_401_fst unauthorized_def)
  have i: "user ?p \<noteq> None" "auth_loading ?p" "console ?p = []" "hrefs ?p = []"
    by (simp_all add: page_at_def)
  show ?thesis
    using o i checkAuthStatus_failure [OF o] by simp
qed

lemma logout_result:
  "\<exists>logs. logout e p = (Inr (), (snd (apiRequest e ''/logout'' post_options p))
        \<lparr>console := console p @ logs, user := None\<rparr>)
     \<and> (\<forall>exn. fst (apiRequest e ''/logout'' post_options p) = Inl exn \<longrightarrow>
           logs = [ConsoleError [Text ''Logout error:'', Thrown exn]])"
proof -
  obtain r q where rq: "apiRequest e ''/logout'' post_options p = (r, q)"
    by (cases "apiRequest e ''/logout'' post_options p")
  have c: "console q = console p"
    using apiRequest_console [of e "''/logout''" post_options p] rq by simp
  show ?thesis
  proof (cases r)
    case (Inl exn)
    with rq c show ?thesis
      by (intro exI [of _ "[ConsoleError [Text ''Logout error:'', Thrown exn]]"])
         (simp add: logout_def try_finally_def try_catch_def and_then_def effect_def
          console_error_def setUser_def)
  next
    case (Inr v)
    from c have "q\<lparr>console := console p @ [], user := None\<rparr> = q\<lparr>user := None\<rparr>"
      by simp
    with Inr rq show ?thesis
      by (intro exI [of _ "[]"])
         (simp add: logout_def try_finally_def try_catch_def and_then_def effect_def
          evaluate_def setUser_def)
  qed
qed

text \<open>
  C8. \<^verbatim>\<open>logout\<close> always ends normally with \<open>user\<close> null, whether the call of
  \<^verbatim>\<open>/logout\<close> returns or throws; what it throws is logged with \<^verbatim>\<open>console.error\<close>
  and not thrown again.
\<close>

theorem logout_unauthenticated:
  "fst (logout e p) = Inr ()
   \<and> user (snd (logout e p)) = None
   \<and> (\<forall>exn. fst (apiRequest e ''/logout'' post_options p) = Inl exn \<longrightarrow>
         console (snd (logout e p)) =
           console p @ [ConsoleError [Text ''Logout error:'', Thrown exn]])"
  using logout_result [of e p] by auto

theorem logout_unauthenticated_witness:
  "fst (apiRequest silent ''/logout'' post_options (page_at (Some ''/orders'')))
     = Inl (Error \<lparr>message = ''Network error: Request timeout'', status = None, details = None\<rparr>)
   \<and> user (page_at (Some ''/orders'')) \<noteq> None
   \<and> fst (logout silent (page_at (Some ''/orders''))) = Inr ()
   \<and> user (snd (logout silent (page_at (Some ''/orders'')))) = None
   \<and> console (snd (logout silent (page_at (Some ''/orders'')))) =
       [ConsoleError [Text ''Logout error:'',
          Thrown (Error \<lparr>message = ''Network error: Request timeout'',
                          status = None, details = None\<rparr>)]]"
proof -
  let ?p = "page_at (Some ''/orders'')"
  have o: "fst (apiRequest silent ''/logout'' post_options ?p)
     = Inl (Error \<lparr>message = ''Network error: Request timeout'', status = None, details = None\<rparr>)"
    by (simp add: apiRequest_def silent_def fetchWithTimeout_def Let_def)
  have i: "user ?p \<noteq> None" "console ?p = []"
    by (simp_all add: page_at_def)
  show ?thesis
    using o i logout_unauthenticated [of silent ?p] by simp
qed

end
